theory Spec2Isabelle
  imports Main "HOL-Library.Word"
begin

section \<open>JavaScript strings and the library functions the studio calls\<close>

text \<open>
  A JavaScript string is a sequence of UTF-16 code units. The tokens of the format grammar
  are ASCII except the character placeholder, whose two ideographs are the code units
  U+89D2 and U+8272. \<open>ascii\<close> embeds an ASCII literal.
\<close>

type_synonym jschar = "16 word"
type_synonym jsstring = "jschar list"

definition ascii :: "string \<Rightarrow> jsstring" where
  "ascii s = map (\<lambda>c. word_of_nat (of_char c)) s"

text \<open>
  \<open>String.prototype.trim\<close> strips the code units that ECMAScript calls WhiteSpace or
  LineTerminator from both ends.
\<close>

definition isWhiteSpace :: "jschar \<Rightarrow> bool" where
  "isWhiteSpace c \<longleftrightarrow>
     c \<in> set [0x0009, 0x000A, 0x000B, 0x000C, 0x000D, 0x0020, 0x00A0, 0x1680,
               0x2000, 0x2001, 0x2002, 0x2003, 0x2004, 0x2005, 0x2006, 0x2007,
               0x2008, 0x2009, 0x200A, 0x2028, 0x2029, 0x202F, 0x205F, 0x3000, 0xFEFF]"

definition trim :: "jsstring \<Rightarrow> jsstring" where
  "trim s = rev (dropWhile isWhiteSpace (rev (dropWhile isWhiteSpace s)))"

text \<open>
  \<open>Array.prototype.join\<close> on an array of strings, as the language standard writes it:
  a result string \<open>R\<close> and an index \<open>k\<close>; before every element but the first the
  separator is appended.
\<close>

fun join_loop :: "jsstring \<Rightarrow> nat \<Rightarrow> jsstring \<Rightarrow> jsstring list \<Rightarrow> jsstring" where
  "join_loop sep k R [] = R"
| "join_loop sep k R (e # es) = join_loop sep (Suc k) ((if 0 < k then R @ sep else R) @ e) es"

definition join :: "jsstring list \<Rightarrow> jsstring \<Rightarrow> jsstring" where
  "join xs sep = join_loop sep 0 [] xs"

text \<open>
  \<open>x || d\<close> for an optional string \<open>x\<close>: \<open>undefined\<close> and the empty string are both
  falsy, every other string is truthy.
\<close>

definition or_default :: "jsstring option \<Rightarrow> jsstring \<Rightarrow> jsstring" where
  "or_default x d = (case x of None \<Rightarrow> d | Some s \<Rightarrow> if s = [] then d else s)"

text \<open>
  Arrays. A slot of a JavaScript array may hold \<open>undefined\<close> (\<open>None\<close>). Besides its
  elements (\<open>elems\<close>) an array object carries properties that are no elements (\<open>props\<close>):
  a write at a negative integer creates or updates the property of that name and leaves
  the elements and the length alone, and a read at a negative integer returns that
  property, \<open>undefined\<close> when it was never written. A read at or after the length yields
  \<open>undefined\<close>; a write there extends the array. \<open>array_of\<close> is the array holding the
  given elements and no other property.
\<close>

record 'a js_array =
  elems :: "'a option list"
  props :: "int \<Rightarrow> 'a option"

definition array_of :: "'a list \<Rightarrow> 'a js_array" where
  "array_of xs = \<lparr> elems = map Some xs, props = (\<lambda>i. None) \<rparr>"

definition js_index :: "'a js_array \<Rightarrow> int \<Rightarrow> 'a option" where
  "js_index arr i =
     (if i < 0 then props arr i
      else if i < int (length (elems arr)) then elems arr ! nat i
      else None)"

definition js_assign :: "'a js_array \<Rightarrow> int \<Rightarrow> 'a option \<Rightarrow> 'a js_array" where
  "js_assign arr i v =
     (if i < 0 then arr\<lparr> props := (props arr)(i := v) \<rparr>
      else if i < int (length (elems arr)) then arr\<lparr> elems := (elems arr)[nat i := v] \<rparr>
      else arr\<lparr> elems := elems arr @ replicate (nat i - length (elems arr)) None @ [v] \<rparr>)"

text \<open>\<open>arr[0]\<close> on an array of the declared element type.\<close>

definition first_elem :: "'a list \<Rightarrow> 'a option" where
  "first_elem xs = (case xs of [] \<Rightarrow> None | x # _ \<Rightarrow> Some x)"


section \<open>Data model (types/data.ts)\<close>

datatype DataType = string | number | boolean

datatype EntryType = Single | List

datatype CategoryScope = shared | character

datatype InteractionType = none | fill_input | send_chat | custom_script

record Validation =
  min_value :: "int option"
  max_value :: "int option"
  pattern :: "jsstring option"

record ItemDefinitionPart =
  key :: jsstring
  label :: jsstring
  data_type :: DataType
  validation :: "Validation option"

record CategoryDefinition =
  key :: jsstring
  name :: jsstring
  icon :: jsstring
  order :: int
  scope :: CategoryScope

text \<open>
  The three interfaces share field names; the unqualified \<open>key\<close>, \<open>name\<close> and \<open>icon\<close> are
  those of \<open>ItemDefinition\<close>, the others are written qualified.
\<close>

record ItemDefinition =
  key :: jsstring
  name :: jsstring
  icon :: "jsstring option"
  category :: jsstring
  entry_type :: EntryType
  parts :: "ItemDefinitionPart list"
  separator :: jsstring
  secondary_separator :: "jsstring option"
  ui_type :: "jsstring option"
  interaction_type :: "InteractionType option"
  format :: "jsstring option"
  description :: "jsstring option"


section \<open>The format generator (DefinitionStudio.vue, generatedFormat)\<close>

text \<open>The template literal that wraps a key in braces.\<close>

definition braced :: "jsstring \<Rightarrow> jsstring" where
  "braced k = ascii ''{'' @ k @ ascii ''}''"

text \<open>\<open>cat?.scope === 'shared' ? 'ST' : '{..}'\<close>, the braces holding U+89D2 U+8272.\<close>

definition scopeToken :: "CategoryDefinition option \<Rightarrow> jsstring" where
  "scopeToken cat =
     (if map_option scope cat = Some shared then ascii ''ST''
      else ascii ''{'' @ [0x89D2, 0x8272] @ ascii ''}'')"

definition partTemplate :: "ItemDefinition \<Rightarrow> jsstring" where
  "partTemplate itemForm =
     (if 1 < length (parts itemForm)
      then join (map (\<lambda>p. braced (ItemDefinitionPart.key p)) (parts itemForm))
             (or_default (secondary_separator itemForm) (ascii ''@''))
      else braced (or_default (map_option ItemDefinitionPart.key (first_elem (parts itemForm)))
                     (ascii ''item'')))"

definition valuePart :: "ItemDefinition \<Rightarrow> jsstring" where
  "valuePart itemForm =
     (if length (parts itemForm) = 0 then braced (key itemForm)
      else if entry_type itemForm = Single
      then join (map (\<lambda>p. braced (ItemDefinitionPart.key p)) (parts itemForm))
             (separator itemForm)
      else partTemplate itemForm @ separator itemForm @ ascii ''...'')"

definition generatedFormat ::
  "(jsstring \<rightharpoonup> CategoryDefinition) \<Rightarrow> ItemDefinition \<Rightarrow> jsstring" where
  "generatedFormat cats itemForm =
     (if key itemForm = [] \<or> category itemForm = [] then []
      else
        let cat = cats (category itemForm);
            scopeTok = scopeToken cat;
            categoryKey = category itemForm
        in ascii ''['' @ scopeTok @ ascii ''^'' @ categoryKey @ ascii ''|'' @ key itemForm
             @ ascii ''::'' @ valuePart itemForm @ ascii '']'')"


section \<open>The editing session and the registries\<close>

text \<open>
  A registry (\<open>Record<string, T>\<close>) is a plain object: its own entries, a map from strings
  to values, and its prototype. The map does not record insertion order, which none of the
  operations below reads. Objects are copied on save (\<open>{ ...form }\<close>), so an entry is a
  value. The numbers \<open>order\<close>, \<open>min\<close> and \<open>max\<close> are carried as data and never computed
  with; they are integers here.

  The prototype matters at one key. The assignment \<open>reg[k] = v\<close> creates or replaces the own
  entry at \<open>k\<close>, except when \<open>k\<close> is \<open>__proto__\<close> and the object has no own entry of that
  name: then the setter inherited from the standard prototype runs, \<open>v\<close> becomes the
  prototype of the registry object, and no entry is created. The prototype is recorded as
  \<open>None\<close> while it is the standard one and as \<open>Some v\<close> once replaced. The read \<open>reg[k]\<close>
  yields the own entry at \<open>k\<close> if there is one and, at \<open>__proto__\<close>, the prototype. At every
  other inherited name it yields something that is no definition (a function of the
  standard prototype, a field value of a replaced one), on which \<open>cat?.scope\<close> is
  \<open>undefined\<close>; such a read is \<open>None\<close> like an absent key. \<open>Object.values\<close> and \<open>delete\<close> see
  own entries only.
\<close>

definition proto_key :: jsstring where
  "proto_key = ascii ''__proto__''"

definition registry_get :: "(jsstring \<rightharpoonup> 'v) \<Rightarrow> 'v option \<Rightarrow> jsstring \<Rightarrow> 'v option" where
  "registry_get own proto k =
     (case own k of Some v \<Rightarrow> Some v
      | None \<Rightarrow> if k = proto_key then proto else None)"

definition registry_set ::
  "(jsstring \<rightharpoonup> 'v) \<Rightarrow> 'v option \<Rightarrow> jsstring \<Rightarrow> 'v \<Rightarrow> (jsstring \<rightharpoonup> 'v) \<times> 'v option" where
  "registry_set own proto k v =
     (if k = proto_key \<and> own k = None then (own, Some v) else (own(k \<mapsto> v), proto))"

text \<open>The component's reactive state.\<close>

record studio =
  categories :: "jsstring \<rightharpoonup> CategoryDefinition"
  categories_proto :: "CategoryDefinition option"
  itemDefinitions :: "jsstring \<rightharpoonup> ItemDefinition"
  itemDefinitions_proto :: "ItemDefinition option"
  selectedCategoryKey :: "jsstring option"
  isSidebarCollapsed :: bool
  isEditingCategory :: bool
  isEditingItem :: bool
  categoryForm :: CategoryDefinition
  itemForm :: ItemDefinition

definition initial_studio :: studio where
  "initial_studio =
     \<lparr> categories = Map.empty,
       categories_proto = None,
       itemDefinitions = Map.empty,
       itemDefinitions_proto = None,
       selectedCategoryKey = None,
       isSidebarCollapsed = False,
       isEditingCategory = False,
       isEditingItem = False,
       categoryForm =
         \<lparr> CategoryDefinition.key = [], CategoryDefinition.name = [],
           CategoryDefinition.icon = ascii ''folder'', order = 0, scope = character \<rparr>,
       itemForm =
         \<lparr> key = [], name = [], icon = Some [], category = [], entry_type = Single,
           parts = [], separator = ascii ''|'', secondary_separator = Some (ascii ''@''),
           ui_type = None, interaction_type = None, format = None,
           description = Some [] \<rparr> \<rparr>"

text \<open>\<open>categories.value[k]\<close> and \<open>itemDefinitions.value[k]\<close>.\<close>

definition category_get :: "studio \<Rightarrow> jsstring \<Rightarrow> CategoryDefinition option" where
  "category_get st = registry_get (categories st) (categories_proto st)"

definition item_get :: "studio \<Rightarrow> jsstring \<Rightarrow> ItemDefinition option" where
  "item_get st = registry_get (itemDefinitions st) (itemDefinitions_proto st)"

definition saveCategory :: "studio \<Rightarrow> studio" where
  "saveCategory st =
     (if trim (CategoryDefinition.key (categoryForm st)) = []
         \<or> trim (CategoryDefinition.name (categoryForm st)) = []
      then st
      else
        let (own, proto) =
              registry_set (categories st) (categories_proto st)
                (CategoryDefinition.key (categoryForm st)) (categoryForm st)
        in st\<lparr> categories := own, categories_proto := proto, isEditingCategory := False \<rparr>)"


definition saveItem :: "studio \<Rightarrow> studio" where
  "saveItem st =
     (if trim (key (itemForm st)) = [] \<or> trim (name (itemForm st)) = [] then st
      else
        let form = (itemForm st)\<lparr> format := Some (generatedFormat (category_get st) (itemForm st)) \<rparr>;
            (own, proto) =
              registry_set (itemDefinitions st) (itemDefinitions_proto st) (key form) form
        in st\<lparr> itemForm := form, itemDefinitions := own, itemDefinitions_proto := proto,
               isEditingItem := False \<rparr>)"

definition deleteItem :: "bool \<Rightarrow> jsstring \<Rightarrow> studio \<Rightarrow> studio" where
  "deleteItem confirmed k st =
     (if confirmed then st\<lparr> itemDefinitions := (itemDefinitions st)(k := None) \<rparr> else st)"



section \<open>The parts list editor\<close>

text \<open>
  \<open>removePart\<close> is \<open>parts.splice(index, 1)\<close>: a negative start counts from the end and is
  clamped at 0, a start beyond the length is clamped at the length, and the number of
  deleted elements is clamped to what is left. No case of it raises.
\<close>

definition removePart :: "int \<Rightarrow> 'a list \<Rightarrow> 'a list" where
  "removePart index ps =
     (let len = int (length ps);
          actualStart = (if index < 0 then max (len + index) 0 else min index len);
          actualDeleteCount = min (max 1 0) (len - actualStart)
      in take (nat actualStart) ps @ drop (nat (actualStart + actualDeleteCount)) ps)"

text \<open>
  \<open>movePart\<close> tests the target index only, then exchanges the two slots through a
  temporary. It works on the array object, so that what an index outside the array reads
  and writes is part of the model.
\<close>

definition movePart :: "int \<Rightarrow> int \<Rightarrow> 'a js_array \<Rightarrow> 'a js_array" where
  "movePart index direction ps =
     (let newIndex = index + direction in
      if newIndex < 0 \<or> int (length (elems ps)) \<le> newIndex then ps
      else
        let temp = js_index ps index;
            ps1 = js_assign ps index (js_index ps newIndex);
            ps2 = js_assign ps1 newIndex temp
        in ps2)"

definition addPart :: "ItemDefinitionPart list \<Rightarrow> ItemDefinitionPart list" where
  "addPart ps =
     ps @ [\<lparr> ItemDefinitionPart.key = [], label = [], data_type = string, validation = None \<rparr>]"


section \<open>Example data\<close>

text \<open>
  The categories and items of the scenarios: a character-scoped category \<open>CV\<close>, a shared
  category \<open>ST1\<close>, the item \<open>HP\<close> with the single part \<open>value\<close>, the weather item
  (key U+5929 U+6C14) without parts, a single item with the parts \<open>current\<close> and \<open>max\<close>,
  and list items with one part and with two parts. Fields a scenario does not mention keep
  the values of the initial form.
\<close>

definition cat_CV :: CategoryDefinition where
  "cat_CV = \<lparr> CategoryDefinition.key = ascii ''CV'',
              CategoryDefinition.name = [0x89D2, 0x8272, 0x5C5E, 0x6027],
              CategoryDefinition.icon = ascii ''folder'', order = 0, scope = character \<rparr>"

definition cat_ST1 :: CategoryDefinition where
  "cat_ST1 = \<lparr> CategoryDefinition.key = ascii ''ST1'',
               CategoryDefinition.name = [0x4E16, 0x754C],
               CategoryDefinition.icon = ascii ''folder'', order = 1, scope = shared \<rparr>"

definition example_categories :: "jsstring \<rightharpoonup> CategoryDefinition" where
  "example_categories = [ascii ''CV'' \<mapsto> cat_CV, ascii ''ST1'' \<mapsto> cat_ST1]"

definition part_named :: "jsstring \<Rightarrow> ItemDefinitionPart" where
  "part_named k = \<lparr> ItemDefinitionPart.key = k, label = k, data_type = string, validation = None \<rparr>"

definition item_HP :: ItemDefinition where
  "item_HP = (itemForm initial_studio)
     \<lparr> key := ascii ''HP'', name := [0x751F, 0x547D, 0x503C], category := ascii ''CV'',
       entry_type := Single, parts := [part_named (ascii ''value'')] \<rparr>"

definition item_weather :: ItemDefinition where
  "item_weather = (itemForm initial_studio)
     \<lparr> key := [0x5929, 0x6C14], name := [0x5929, 0x6C14], category := ascii ''ST1'',
       entry_type := Single, parts := [] \<rparr>"

definition item_gauge :: ItemDefinition where
  "item_gauge = (itemForm initial_studio)
     \<lparr> key := ascii ''MP'', name := ascii ''Mana'', category := ascii ''CV'',
       entry_type := Single, parts := [part_named (ascii ''current''), part_named (ascii ''max'')] \<rparr>"

definition item_bag :: ItemDefinition where
  "item_bag = (itemForm initial_studio)
     \<lparr> key := ascii ''bag'', name := ascii ''Bag'', category := ascii ''CV'',
       entry_type := List, parts := [part_named (ascii ''name'')] \<rparr>"

definition item_skills :: ItemDefinition where
  "item_skills = item_bag
     \<lparr> key := ascii ''skills'', name := ascii ''Skills'',
       parts := [part_named (ascii ''name''), part_named (ascii ''level'')] \<rparr>"

definition example_studio :: studio where
  "example_studio = initial_studio
     \<lparr> categories := example_categories,
       itemDefinitions := [ascii ''HP'' \<mapsto> item_HP],
       selectedCategoryKey := Some (ascii ''CV'') \<rparr>"

text \<open>
  Two drafts the form can hold: a list item whose only part is the one \<open>addPart\<close> has just
  appended (its key still empty), and a two-part list item whose secondary separator field
  has been cleared to the empty string.
\<close>

definition item_blank_list :: ItemDefinition where
  "item_blank_list = item_bag\<lparr> parts := addPart [] \<rparr>"

definition item_skills_nosep :: ItemDefinition where
  "item_skills_nosep = item_skills\<lparr> secondary_separator := Some [] \<rparr>"

text \<open>
  Editing sessions: a category draft whose key is a single space, an item draft whose name
  is a single ideographic space (U+3000), a valid category draft that changes the scope of
  \<open>CV\<close>, and a valid item draft that carries a stale \<open>format\<close>.
\<close>

definition category_draft_blank :: CategoryDefinition where
  "category_draft_blank = cat_ST1\<lparr> CategoryDefinition.key := [0x20] \<rparr>"

definition studio_blank_category :: studio where
  "studio_blank_category =
     initial_studio\<lparr> categoryForm := category_draft_blank, isEditingCategory := True \<rparr>"

definition studio_blank_item :: studio where
  "studio_blank_item =
     example_studio\<lparr> itemForm := item_gauge\<lparr> name := [0x3000] \<rparr>, isEditingItem := True \<rparr>"

definition studio_category_draft :: studio where
  "studio_category_draft =
     example_studio\<lparr> categoryForm := cat_CV\<lparr> scope := shared \<rparr>, isEditingCategory := True \<rparr>"

definition studio_item_draft :: studio where
  "studio_item_draft =
     example_studio\<lparr> itemForm := item_HP\<lparr> format := Some (ascii ''stale'') \<rparr>,
                     isEditingItem := True \<rparr>"


section \<open>Properties of \<open>join\<close>\<close>

text \<open>The loop computes the elements in order with the separator between neighbours.\<close>

lemma join_loop_Suc:
  "join_loop sep (Suc k) R es = R @ concat (map (\<lambda>e. sep @ e) es)"
  by (induction es arbitrary: k R) simp_all

lemma join_Nil: "join [] sep = []"
  by (simp add: join_def)

lemma join_Cons: "join (x # xs) sep = x @ concat (map (\<lambda>e. sep @ e) xs)"
  by (simp add: join_def join_loop_Suc)

lemma join_single: "join [x] sep = x"
  by (simp add: join_Cons)

lemma join_pair: "join [x, y] sep = x @ sep @ y"
  by (simp add: join_Cons)


section \<open>The format generator\<close>

text \<open>
  Claim C1. The format is a function of the draft and the category registry alone. It is the
  empty string when the draft's key or category is empty. Otherwise it is
  \<open>[\<close> scope token \<open>^\<close> category \<open>|\<close> key \<open>::\<close> value part \<open>]\<close>, the scope token being \<open>ST\<close>
  when the registry maps the draft's category to a definition of scope \<open>shared\<close>, and the
  character placeholder \<open>{\<close>U+89D2 U+8272\<open>}\<close> when the scope is \<open>character\<close> or the category
  is not in the registry.
\<close>

theorem generatedFormat_shape:
  "(key d = [] \<or> category d = [] \<longrightarrow> generatedFormat cats d = []) \<and>
   (key d \<noteq> [] \<and> category d \<noteq> [] \<longrightarrow>
      generatedFormat cats d =
        ascii ''['' @
        (if \<exists>c. cats (category d) = Some c \<and> scope c = shared then ascii ''ST''
         else ascii ''{'' @ [0x89D2, 0x8272] @ ascii ''}'')
        @ ascii ''^'' @ category d @ ascii ''|'' @ key d @ ascii ''::'' @ valuePart d @ ascii '']'')"
  by (cases "cats (category d)") (simp_all add: generatedFormat_def scopeToken_def)

theorem generatedFormat_shape_witness:
  "generatedFormat example_categories (itemForm initial_studio) = [] \<and>
   generatedFormat example_categories item_HP =
     ascii ''[{'' @ [0x89D2, 0x8272] @ ascii ''}^CV|HP::{value}]'' \<and>
   generatedFormat example_categories (item_HP\<lparr>category := ascii ''ST1''\<rparr>) =
     ascii ''[ST^ST1|HP::{value}]'' \<and>
   generatedFormat example_categories (item_HP\<lparr>category := ascii ''XX''\<rparr>) =
     ascii ''[{'' @ [0x89D2, 0x8272] @ ascii ''}^XX|HP::{value}]''"
  using generatedFormat_shape [of "itemForm initial_studio" example_categories]
    generatedFormat_shape [of item_HP example_categories]
    generatedFormat_shape [of "item_HP\<lparr>category := ascii ''ST1''\<rparr>" example_categories]
    generatedFormat_shape [of "item_HP\<lparr>category := ascii ''XX''\<rparr>" example_categories]
  by (simp add: initial_studio_def item_HP_def example_categories_def cat_CV_def cat_ST1_def
      valuePart_def join_single braced_def part_named_def ascii_def)

text \<open>
  Claim C2, as stated, fails at two drafts. A list item with the single part \<open>p\<close> whose key
  is empty gets the template \<open>{item}\<close>, not \<open>{\<close>\<open>}\<close>; and a list item with two parts whose
  secondary separator is set to the empty string is joined with \<open>@\<close>, not with the empty
  string.
\<close>

theorem valuePart_List_counterexample:
  "(entry_type item_blank_list = List \<and> key item_blank_list \<noteq> [] \<and>
    category item_blank_list \<noteq> [] \<and> separator item_blank_list = ascii ''|'' \<and>
    parts item_blank_list = [part_named []] \<and>
    valuePart item_blank_list = ascii ''{item}|...'' \<and>
    valuePart item_blank_list \<noteq>
      ascii ''{'' @ ItemDefinitionPart.key (part_named []) @ ascii ''}|...'') \<and>
   (entry_type item_skills_nosep = List \<and> key item_skills_nosep \<noteq> [] \<and>
    category item_skills_nosep \<noteq> [] \<and> separator item_skills_nosep = ascii ''|'' \<and>
    secondary_separator item_skills_nosep = Some [] \<and>
    parts item_skills_nosep = [part_named (ascii ''name''), part_named (ascii ''level'')] \<and>
    valuePart item_skills_nosep = ascii ''{name}@'' @ ascii ''{level}|...'' \<and>
    valuePart item_skills_nosep \<noteq>
      join (map (\<lambda>p. ascii ''{'' @ ItemDefinitionPart.key p @ ascii ''}'') (parts item_skills_nosep)) []
        @ ascii ''|...'')"
  by (simp add: item_blank_list_def item_skills_nosep_def item_skills_def item_bag_def
      initial_studio_def addPart_def part_named_def valuePart_def partTemplate_def
      or_default_def first_elem_def braced_def join_pair ascii_def)

text \<open>
  Claim C2, amended. For a draft with non-empty key and category, entry type \<open>List\<close> and
  non-empty parts, the value part is the part template, then the separator, then \<open>...\<close>.
  With more than one part the template is the braced part keys joined with the secondary
  separator, \<open>@\<close> standing in when the secondary separator is unset or empty. With exactly
  one part \<open>p\<close> the template is \<open>{\<close>\<open>p.key\<close>\<open>}\<close> when \<open>p.key\<close> is non-empty and \<open>{item}\<close>
  when it is empty. In particular a single part with a non-empty key and the separator
  \<open>|\<close> give \<open>{\<close>\<open>p.key\<close>\<open>}|...\<close>.
\<close>

theorem valuePart_List:
  "key d \<noteq> [] \<and> category d \<noteq> [] \<and> entry_type d = List \<and> parts d \<noteq> [] \<longrightarrow>
     (1 < length (parts d) \<longrightarrow>
        valuePart d =
          join (map (\<lambda>p. ascii ''{'' @ ItemDefinitionPart.key p @ ascii ''}'') (parts d))
            (case secondary_separator d of None \<Rightarrow> ascii ''@''
             | Some s \<Rightarrow> if s = [] then ascii ''@'' else s)
          @ separator d @ ascii ''...'') \<and>
     (parts d = [p] \<longrightarrow>
        valuePart d =
          (if ItemDefinitionPart.key p = [] then ascii ''{item}''
           else ascii ''{'' @ ItemDefinitionPart.key p @ ascii ''}'')
          @ separator d @ ascii ''...'') \<and>
     (parts d = [p] \<and> ItemDefinitionPart.key p \<noteq> [] \<and> separator d = ascii ''|'' \<longrightarrow>
        valuePart d = ascii ''{'' @ ItemDefinitionPart.key p @ ascii ''}|...'') \<and>
     generatedFormat cats d =
       ascii ''['' @ scopeToken (cats (category d)) @ ascii ''^'' @ category d @ ascii ''|'' @ key d
         @ ascii ''::'' @ valuePart d @ ascii '']''"
  by (auto simp add: valuePart_def partTemplate_def generatedFormat_def or_default_def
      first_elem_def braced_def ascii_def split: option.splits)

theorem valuePart_List_witness:
  "valuePart item_skills = ascii ''{name}@'' @ ascii ''{level}|...'' \<and>
   valuePart (item_skills\<lparr>secondary_separator := None\<rparr>) = ascii ''{name}@'' @ ascii ''{level}|...'' \<and>
   valuePart (item_skills\<lparr>secondary_separator := Some (ascii ''/'')\<rparr>) = ascii ''{name}/{level}|...'' \<and>
   valuePart item_bag = ascii ''{name}|...'' \<and>
   valuePart item_blank_list = ascii ''{item}|...'' \<and>
   generatedFormat example_categories item_bag =
     ascii ''[{'' @ [0x89D2, 0x8272] @ ascii ''}^CV|bag::{name}|...]''"
  using valuePart_List [of item_skills p example_categories]
    valuePart_List [of "item_skills\<lparr>secondary_separator := None\<rparr>" p example_categories]
    valuePart_List [of "item_skills\<lparr>secondary_separator := Some (ascii ''/'')\<rparr>" p example_categories]
    valuePart_List [of item_bag "part_named (ascii ''name'')" example_categories]
    valuePart_List [of item_blank_list "part_named []" example_categories]
  by (simp add: item_blank_list_def item_skills_def item_bag_def
      initial_studio_def addPart_def part_named_def join_pair example_categories_def
      cat_CV_def scopeToken_def ascii_def)

text \<open>
  Claim C3. For a draft with non-empty key and category, entry type \<open>Single\<close> and non-empty
  parts, the value part is the braced part keys, in part order, joined with the draft's
  separator: the first braced key, then for each further part the separator and its
  braced key. For the parts \<open>[p1, p2]\<close> and the separator \<open>|\<close> it is
  \<open>{\<close>\<open>p1.key\<close>\<open>}|{\<close>\<open>p2.key\<close>\<open>}\<close>.
\<close>

theorem valuePart_Single:
  "key d \<noteq> [] \<and> category d \<noteq> [] \<and> entry_type d = Single \<and> parts d \<noteq> [] \<longrightarrow>
     valuePart d =
       join (map (\<lambda>p. ascii ''{'' @ ItemDefinitionPart.key p @ ascii ''}'') (parts d)) (separator d) \<and>
     generatedFormat cats d =
       ascii ''['' @ scopeToken (cats (category d)) @ ascii ''^'' @ category d @ ascii ''|'' @ key d
         @ ascii ''::'' @ valuePart d @ ascii '']'' \<and>
     (parts d = p # rest \<longrightarrow>
        valuePart d =
          ascii ''{'' @ ItemDefinitionPart.key p @ ascii ''}''
            @ concat (map (\<lambda>q. separator d @ ascii ''{'' @ ItemDefinitionPart.key q @ ascii ''}'')
                rest)) \<and>
     (parts d = [p1, p2] \<and> separator d = ascii ''|'' \<longrightarrow>
        valuePart d =
          ascii ''{'' @ ItemDefinitionPart.key p1 @ ascii ''}|{'' @ ItemDefinitionPart.key p2
            @ ascii ''}'')"
  by (auto simp add: valuePart_def generatedFormat_def braced_def join_Cons ascii_def comp_def)

theorem valuePart_Single_witness:
  "valuePart item_gauge = ascii ''{current}|{max}'' \<and>
   generatedFormat example_categories item_gauge =
     ascii ''[{'' @ [0x89D2, 0x8272] @ ascii ''}^CV|MP::{current}|{max}]''"
  using valuePart_Single [of item_gauge example_categories
      "part_named (ascii ''current'')" "[part_named (ascii ''max'')]"
      "part_named (ascii ''current'')" "part_named (ascii ''max'')"]
  by (simp add: item_gauge_def initial_studio_def part_named_def example_categories_def
      cat_CV_def scopeToken_def join_pair ascii_def)

text \<open>
  Claim C4. For a draft with non-empty key and category and no parts the value part is the
  braced item key, whatever the entry type; the shared category \<open>ST1\<close> and the weather item
  (key U+5929 U+6C14) give \<open>[ST^ST1|\<close>key\<open>::{\<close>key\<open>}]\<close>.
\<close>

theorem valuePart_no_parts:
  "(key d \<noteq> [] \<and> category d \<noteq> [] \<and> parts d = [] \<longrightarrow>
      valuePart d = ascii ''{'' @ key d @ ascii ''}'' \<and>
      generatedFormat cats d =
        ascii ''['' @ scopeToken (cats (category d)) @ ascii ''^'' @ category d @ ascii ''|'' @ key d
          @ ascii ''::{'' @ key d @ ascii ''}]'') \<and>
   generatedFormat example_categories item_weather =
     ascii ''[ST^ST1|'' @ [0x5929, 0x6C14] @ ascii ''::{'' @ [0x5929, 0x6C14] @ ascii ''}]''"
  by (simp add: valuePart_def generatedFormat_def braced_def scopeToken_def ascii_def
      item_weather_def initial_studio_def example_categories_def cat_ST1_def)

theorem valuePart_no_parts_witness:
  "valuePart (item_weather\<lparr>entry_type := List\<rparr>) = ascii ''{'' @ [0x5929, 0x6C14] @ ascii ''}'' \<and>
   valuePart item_weather = ascii ''{'' @ [0x5929, 0x6C14] @ ascii ''}'' \<and>
   generatedFormat example_categories (item_weather\<lparr>entry_type := List\<rparr>) =
     ascii ''[ST^ST1|'' @ [0x5929, 0x6C14] @ ascii ''::{'' @ [0x5929, 0x6C14] @ ascii ''}]''"
  using valuePart_no_parts [of "item_weather\<lparr>entry_type := List\<rparr>" example_categories]
    valuePart_no_parts [of item_weather example_categories]
  by (simp add: item_weather_def initial_studio_def example_categories_def cat_ST1_def
      scopeToken_def ascii_def)


section \<open>The registries\<close>

text \<open>Trimming the empty string, and the fields the format generator never reads.\<close>

lemma trim_Nil: "trim [] = []"
  by (simp add: trim_def)

lemma generatedFormat_ignores_format:
  "generatedFormat cats (d\<lparr> format := f \<rparr>) = generatedFormat cats d"
  by (simp add: generatedFormat_def valuePart_def partTemplate_def)

text \<open>
  Reading a registry: with the standard prototype the read is the own entry; a value just
  assigned is what the read at its key returns; and assigning the same value twice is
  assigning it once.
\<close>

lemma registry_get_standard: "registry_get own None = own"
  by (auto simp add: registry_get_def fun_eq_iff split: option.splits)

lemma category_get_standard: "categories_proto st = None \<Longrightarrow> category_get st = categories st"
  by (simp add: category_get_def registry_get_standard)

lemma registry_get_set:
  "registry_get (fst (registry_set own proto k v)) (snd (registry_set own proto k v)) k = Some v"
  by (simp add: registry_get_def registry_set_def)

lemma registry_set_idem:
  "registry_set (fst (registry_set own proto k v)) (snd (registry_set own proto k v)) k v =
     registry_set own proto k v"
  by (auto simp add: registry_set_def)

lemma registry_set_ordinary:
  "k \<noteq> proto_key \<Longrightarrow> registry_set own proto k v = (own(k \<mapsto> v), proto)"
  by (simp add: registry_set_def)

text \<open>
  At the key \<open>__proto__\<close>, on a registry without an own entry of that name, an accepted
  save creates no entry: the draft becomes the prototype of the registry object.
\<close>

lemma trim_proto_key: "trim proto_key = proto_key" "proto_key \<noteq> []"
  by (simp_all add: proto_key_def trim_def isWhiteSpace_def ascii_def)

lemma saveCategory_at_proto_key:
  "trim (CategoryDefinition.name (categoryForm st)) \<noteq> [] \<Longrightarrow>
   CategoryDefinition.key (categoryForm st) = proto_key \<Longrightarrow> categories st proto_key = None \<Longrightarrow>
     categories (saveCategory st) = categories st \<and>
     categories_proto (saveCategory st) = Some (categoryForm st)"
  by (simp add: saveCategory_def registry_set_def trim_proto_key)

lemma saveItem_at_proto_key:
  "trim (name (itemForm st)) \<noteq> [] \<Longrightarrow>
   key (itemForm st) = proto_key \<Longrightarrow> itemDefinitions st proto_key = None \<Longrightarrow>
     itemDefinitions (saveItem st) = itemDefinitions st \<and>
     itemDefinitions_proto (saveItem st) =
       Some ((itemForm st)\<lparr> format := Some (generatedFormat (category_get st) (itemForm st)) \<rparr>)"
  by (simp add: saveItem_def registry_set_def trim_proto_key Let_def)

text \<open>
  Claim C5, as stated, fails: a draft whose key (or name) is non-empty but consists of
  white space only is not accepted. The save returns at its guard, no entry is created at
  the draft's key, and the whole state is unchanged. This holds for both registries.
\<close>

theorem save_guard_counterexample:
  "CategoryDefinition.key (categoryForm studio_blank_category) \<noteq> [] \<and>
   CategoryDefinition.name (categoryForm studio_blank_category) \<noteq> [] \<and>
   saveCategory studio_blank_category = studio_blank_category \<and>
   categories (saveCategory studio_blank_category)
     (CategoryDefinition.key (categoryForm studio_blank_category)) = None \<and>
   key (itemForm studio_blank_item) \<noteq> [] \<and>
   name (itemForm studio_blank_item) \<noteq> [] \<and>
   saveItem studio_blank_item = studio_blank_item \<and>
   itemDefinitions (saveItem studio_blank_item) (key (itemForm studio_blank_item)) = None"
  by (simp add: studio_blank_category_def category_draft_blank_def cat_ST1_def
      studio_blank_item_def example_studio_def item_gauge_def item_HP_def
      initial_studio_def saveCategory_def saveItem_def trim_def isWhiteSpace_def ascii_def)

text \<open>
  Claim C5, amended. For both registries a save is accepted if and only if the draft's key
  and name are non-empty after \<open>trim\<close>. When either trims to the empty string (in
  particular when either is empty) the save leaves the whole state unchanged: both
  registries, both drafts and the editing flags. When accepted with a key other than
  \<open>__proto__\<close> it inserts or fully replaces the entry at the draft's key as typed (not
  trimmed), and leaves the prototype of that registry and the other registry unchanged;
  the item entry is the draft with its \<open>format\<close> regenerated.
\<close>

theorem save_guard:
  "(trim (CategoryDefinition.key (categoryForm st)) = []
      \<or> trim (CategoryDefinition.name (categoryForm st)) = [] \<longrightarrow> saveCategory st = st) \<and>
   (CategoryDefinition.key (categoryForm st) = []
      \<or> CategoryDefinition.name (categoryForm st) = [] \<longrightarrow> saveCategory st = st) \<and>
   (trim (CategoryDefinition.key (categoryForm st)) \<noteq> []
      \<and> trim (CategoryDefinition.name (categoryForm st)) \<noteq> []
      \<and> CategoryDefinition.key (categoryForm st) \<noteq> proto_key \<longrightarrow>
        categories (saveCategory st) =
          (categories st)(CategoryDefinition.key (categoryForm st) \<mapsto> categoryForm st) \<and>
        categories_proto (saveCategory st) = categories_proto st \<and>
        itemDefinitions (saveCategory st) = itemDefinitions st \<and>
        itemDefinitions_proto (saveCategory st) = itemDefinitions_proto st \<and>
        categoryForm (saveCategory st) = categoryForm st \<and>
        itemForm (saveCategory st) = itemForm st) \<and>
   (trim (key (itemForm st)) = [] \<or> trim (name (itemForm st)) = [] \<longrightarrow> saveItem st = st) \<and>
   (key (itemForm st) = [] \<or> name (itemForm st) = [] \<longrightarrow> saveItem st = st) \<and>
   (trim (key (itemForm st)) \<noteq> [] \<and> trim (name (itemForm st)) \<noteq> []
      \<and> key (itemForm st) \<noteq> proto_key \<longrightarrow>
        itemDefinitions (saveItem st) =
          (itemDefinitions st)(key (itemForm st) \<mapsto>
             (itemForm st)\<lparr> format := Some (generatedFormat (category_get st) (itemForm st)) \<rparr>) \<and>
        itemDefinitions_proto (saveItem st) = itemDefinitions_proto st \<and>
        categories (saveItem st) = categories st \<and>
        categories_proto (saveItem st) = categories_proto st \<and>
        categoryForm (saveItem st) = categoryForm st)"
  by (auto simp add: saveCategory_def saveItem_def trim_Nil Let_def registry_set_ordinary)

theorem save_guard_witness:
  "saveCategory studio_blank_category = studio_blank_category \<and>
   saveCategory initial_studio = initial_studio \<and>
   categories (saveCategory studio_category_draft) (ascii ''CV'') =
     Some (cat_CV\<lparr> scope := shared \<rparr>) \<and>
   categories (saveCategory studio_category_draft) (ascii ''ST1'') = Some cat_ST1 \<and>
   itemDefinitions (saveCategory studio_category_draft) = itemDefinitions example_studio \<and>
   saveItem studio_blank_item = studio_blank_item \<and>
   saveItem initial_studio = initial_studio \<and>
   itemDefinitions (saveItem studio_item_draft) (ascii ''HP'') =
     Some (item_HP\<lparr> format := Some (generatedFormat example_categories item_HP) \<rparr>) \<and>
   categories (saveItem studio_item_draft) = example_categories"
proof -
  have blank_cat: "trim (CategoryDefinition.key (categoryForm studio_blank_category)) = []"
    by (simp add: studio_blank_category_def category_draft_blank_def trim_def isWhiteSpace_def)
  have empty_cat: "CategoryDefinition.key (categoryForm initial_studio) = []"
    by (simp add: initial_studio_def)
  have good_cat:
    "trim (CategoryDefinition.key (categoryForm studio_category_draft)) \<noteq> [] \<and>
     trim (CategoryDefinition.name (categoryForm studio_category_draft)) \<noteq> []"
    by (simp add: studio_category_draft_def cat_CV_def trim_def isWhiteSpace_def ascii_def)
  have blank_item: "trim (name (itemForm studio_blank_item)) = []"
    by (simp add: studio_blank_item_def trim_def isWhiteSpace_def)
  have empty_item: "key (itemForm initial_studio) = []"
    by (simp add: initial_studio_def)
  have good_item:
    "trim (key (itemForm studio_item_draft)) \<noteq> [] \<and> trim (name (itemForm studio_item_draft)) \<noteq> []"
    by (simp add: studio_item_draft_def item_HP_def trim_def isWhiteSpace_def ascii_def)
  have cat_fields:
    "categoryForm studio_category_draft = cat_CV\<lparr> scope := shared \<rparr>"
    "CategoryDefinition.key (cat_CV\<lparr> scope := shared \<rparr>) = ascii ''CV''"
    "categories studio_category_draft = example_categories"
    "itemDefinitions studio_category_draft = itemDefinitions example_studio"
    by (simp_all add: studio_category_draft_def cat_CV_def example_studio_def)
  have item_fields:
    "itemForm studio_item_draft = item_HP\<lparr> format := Some (ascii ''stale'') \<rparr>"
    "key item_HP = ascii ''HP''"
    "categories studio_item_draft = example_categories"
    by (simp_all add: studio_item_draft_def item_HP_def example_studio_def)
  have ordinary: "ascii ''CV'' \<noteq> proto_key" "ascii ''HP'' \<noteq> proto_key"
    by (simp_all add: proto_key_def ascii_def)
  have lookup: "category_get studio_item_draft = example_categories"
    by (simp add: category_get_standard studio_item_draft_def example_studio_def
        initial_studio_def)
  have "ascii ''ST1'' \<noteq> ascii ''CV''"
    by (simp add: ascii_def)
  with save_guard [of studio_blank_category] save_guard [of initial_studio]
    save_guard [of studio_category_draft] save_guard [of studio_blank_item]
    save_guard [of studio_item_draft]
    blank_cat empty_cat good_cat blank_item empty_item good_item ordinary
  show ?thesis
    by (simp add: cat_fields item_fields lookup example_categories_def
        generatedFormat_ignores_format)
qed

text \<open>
  Claim C6. After an accepted item save the definition that the item registry yields at
  the draft's key has as its \<open>format\<close> the output of the format generator for the draft and
  the category registry at that moment. For a key other than \<open>__proto__\<close> that definition
  is the own entry at the key, and while the category registry has its standard prototype
  the generator reads the own category entries. Whatever \<open>format\<close> the incoming draft
  carried has no influence on the resulting item registry.
\<close>

theorem saveItem_format_fresh:
  "trim (key (itemForm st)) \<noteq> [] \<and> trim (name (itemForm st)) \<noteq> [] \<longrightarrow>
     map_option format (item_get (saveItem st) (key (itemForm st))) =
       Some (Some (generatedFormat (category_get st) (itemForm st))) \<and>
     (key (itemForm st) \<noteq> proto_key \<longrightarrow>
        map_option format (itemDefinitions (saveItem st) (key (itemForm st))) =
          Some (Some (generatedFormat (category_get st) (itemForm st)))) \<and>
     (key (itemForm st) \<noteq> proto_key \<and> categories_proto st = None \<longrightarrow>
        map_option format (itemDefinitions (saveItem st) (key (itemForm st))) =
          Some (Some (generatedFormat (categories st) (itemForm st)))) \<and>
     itemDefinitions (saveItem (st\<lparr> itemForm := (itemForm st)\<lparr> format := stale \<rparr> \<rparr>)) =
       itemDefinitions (saveItem st) \<and>
     itemDefinitions_proto (saveItem (st\<lparr> itemForm := (itemForm st)\<lparr> format := stale \<rparr> \<rparr>)) =
       itemDefinitions_proto (saveItem st)"
proof (intro impI)
  assume guard: "trim (key (itemForm st)) \<noteq> [] \<and> trim (name (itemForm st)) \<noteq> []"
  let ?form = "(itemForm st)\<lparr> format := Some (generatedFormat (category_get st) (itemForm st)) \<rparr>"
  let ?set = "registry_set (itemDefinitions st) (itemDefinitions_proto st) (key (itemForm st)) ?form"
  from guard have own: "itemDefinitions (saveItem st) = fst ?set"
    and proto: "itemDefinitions_proto (saveItem st) = snd ?set"
    by (simp_all add: saveItem_def Let_def split_beta)
  have yielded: "item_get (saveItem st) (key (itemForm st)) = Some ?form"
    by (simp add: item_get_def own proto registry_get_set)
  have entry: "itemDefinitions (saveItem st) (key (itemForm st)) = Some ?form"
    if "key (itemForm st) \<noteq> proto_key"
    using that by (simp add: own registry_set_ordinary)
  have stale: "saveItem (st\<lparr> itemForm := (itemForm st)\<lparr> format := stale \<rparr> \<rparr>) = saveItem st"
    using guard
    by (simp add: saveItem_def Let_def category_get_def generatedFormat_ignores_format)
  show "map_option format (item_get (saveItem st) (key (itemForm st))) =
       Some (Some (generatedFormat (category_get st) (itemForm st))) \<and>
     (key (itemForm st) \<noteq> proto_key \<longrightarrow>
        map_option format (itemDefinitions (saveItem st) (key (itemForm st))) =
          Some (Some (generatedFormat (category_get st) (itemForm st)))) \<and>
     (key (itemForm st) \<noteq> proto_key \<and> categories_proto st = None \<longrightarrow>
        map_option format (itemDefinitions (saveItem st) (key (itemForm st))) =
          Some (Some (generatedFormat (categories st) (itemForm st)))) \<and>
     itemDefinitions (saveItem (st\<lparr> itemForm := (itemForm st)\<lparr> format := stale \<rparr> \<rparr>)) =
       itemDefinitions (saveItem st) \<and>
     itemDefinitions_proto (saveItem (st\<lparr> itemForm := (itemForm st)\<lparr> format := stale \<rparr> \<rparr>)) =
       itemDefinitions_proto (saveItem st)"
    using yielded entry category_get_standard [of st] by (simp add: stale)
qed

theorem saveItem_format_fresh_witness:
  "format (itemForm studio_item_draft) = Some (ascii ''stale'') \<and>
   map_option format (itemDefinitions (saveItem studio_item_draft) (ascii ''HP'')) =
     Some (Some (ascii ''[{'' @ [0x89D2, 0x8272] @ ascii ''}^CV|HP::{value}]'')) \<and>
   itemDefinitions (saveItem (studio_item_draft\<lparr> itemForm := item_HP \<rparr>)) =
     itemDefinitions (saveItem studio_item_draft)"
proof -
  have guard:
    "trim (key (itemForm studio_item_draft)) \<noteq> [] \<and> trim (name (itemForm studio_item_draft)) \<noteq> []"
    by (simp add: studio_item_draft_def item_HP_def trim_def isWhiteSpace_def ascii_def)
  have fields:
    "itemForm studio_item_draft = item_HP\<lparr> format := Some (ascii ''stale'') \<rparr>"
    "key item_HP = ascii ''HP''"
    "format item_HP = None"
    "categories studio_item_draft = example_categories"
    by (simp_all add: studio_item_draft_def item_HP_def example_studio_def initial_studio_def)
  have fmt: "generatedFormat example_categories item_HP =
      ascii ''[{'' @ [0x89D2, 0x8272] @ ascii ''}^CV|HP::{value}]''"
    by (simp add: generatedFormat_def valuePart_def scopeToken_def braced_def join_single
        item_HP_def initial_studio_def part_named_def example_categories_def cat_CV_def ascii_def)
  have same: "(item_HP\<lparr> format := Some (ascii ''stale'') \<rparr>)\<lparr> format := None \<rparr> = item_HP"
    by (simp add: item_HP_def initial_studio_def)
  have ordinary: "ascii ''HP'' \<noteq> proto_key"
    by (simp add: proto_key_def ascii_def)
  have standard: "categories_proto studio_item_draft = None"
    by (simp add: studio_item_draft_def example_studio_def initial_studio_def)
  from saveItem_format_fresh [of studio_item_draft None] guard ordinary standard
  show ?thesis
    by (simp add: fields fmt same generatedFormat_ignores_format)
qed



text \<open>
  Claim C8. Saving twice in succession gives the same state, hence the same registries, as
  saving once, for the category draft and for the item draft, from every starting state
  and for every draft (valid or not).
\<close>

theorem save_idempotent:
  "saveCategory (saveCategory st) = saveCategory st \<and> saveItem (saveItem st) = saveItem st"
  by (simp add: saveCategory_def saveItem_def Let_def split_beta category_get_def
      generatedFormat_ignores_format registry_set_idem)


section \<open>The parts list editor\<close>

text \<open>
  Claim C9. For every parts list, \<open>movePart(index, direction)\<close> with \<open>direction\<close> in
  \<open>{-1, +1}\<close> swaps the part at \<open>index\<close> with the part at \<open>index + direction\<close> and leaves
  every other position, and every other property of the array, unchanged. When
  \<open>index + direction\<close> is below 0 or at or after the length the operation changes nothing,
  for every \<open>index\<close>; in particular \<open>movePart(0, -1)\<close> changes nothing. The parts list is the
  array whose elements are the parts \<open>ps\<close>, and \<open>index\<close> is the position of a part.
\<close>

theorem movePart_swap:
  "(index + direction < 0 \<or> int (length (elems arr)) \<le> index + direction \<longrightarrow>
      movePart index direction arr = arr) \<and>
   movePart 0 (- 1) arr = arr \<and>
   ((direction = 1 \<or> direction = - 1) \<and> elems arr = map Some ps \<and>
    0 \<le> index \<and> index < int (length ps) \<and>
    0 \<le> index + direction \<and> index + direction < int (length ps) \<longrightarrow>
      movePart index direction arr =
        arr\<lparr> elems := map Some (ps[nat index := ps ! nat (index + direction),
                                  nat (index + direction) := ps ! nat index]) \<rparr> \<and>
      length (elems (movePart index direction arr)) = length ps \<and>
      elems (movePart index direction arr) ! nat index = Some (ps ! nat (index + direction)) \<and>
      elems (movePart index direction arr) ! nat (index + direction) = Some (ps ! nat index) \<and>
      (\<forall>j < length ps. j \<noteq> nat index \<and> j \<noteq> nat (index + direction) \<longrightarrow>
         elems (movePart index direction arr) ! j = Some (ps ! j)) \<and>
      props (movePart index direction arr) = props arr)"
proof -
  have noop: "index + direction < 0 \<or> int (length (elems arr)) \<le> index + direction \<longrightarrow>
      movePart index direction arr = arr"
    by (simp add: movePart_def)
  have first: "movePart 0 (- 1) arr = arr"
    by (simp add: movePart_def)
  have swap: "movePart index direction arr =
        arr\<lparr> elems := map Some (ps[nat index := ps ! nat (index + direction),
                                  nat (index + direction) := ps ! nat index]) \<rparr>"
    if "elems arr = map Some ps" "0 \<le> index" "index < int (length ps)" "0 \<le> index + direction"
      "index + direction < int (length ps)"
    using that by (simp add: movePart_def js_index_def js_assign_def Let_def map_update)
  have rest: "length (ps[nat index := ps ! nat (index + direction),
                     nat (index + direction) := ps ! nat index]) = length ps \<and>
      map Some (ps[nat index := ps ! nat (index + direction),
                     nat (index + direction) := ps ! nat index]) ! nat index =
        Some (ps ! nat (index + direction)) \<and>
      map Some (ps[nat index := ps ! nat (index + direction),
                     nat (index + direction) := ps ! nat index]) ! nat (index + direction) =
        Some (ps ! nat index) \<and>
      (\<forall>j < length ps. j \<noteq> nat index \<and> j \<noteq> nat (index + direction) \<longrightarrow>
         map Some (ps[nat index := ps ! nat (index + direction),
                     nat (index + direction) := ps ! nat index]) ! j = Some (ps ! j))"
    if "0 \<le> index" "index < int (length ps)" "0 \<le> index + direction"
      "index + direction < int (length ps)"
    using that by (auto simp add: nth_list_update)
  from noop first swap rest show ?thesis
    by (simp del: length_list_update)
qed

theorem movePart_swap_witness:
  "movePart 0 1 (array_of [part_named (ascii ''a''), part_named (ascii ''b''), part_named (ascii ''c'')]) =
     array_of [part_named (ascii ''b''), part_named (ascii ''a''), part_named (ascii ''c'')] \<and>
   movePart 2 (- 1) (array_of [part_named (ascii ''a''), part_named (ascii ''b''), part_named (ascii ''c'')]) =
     array_of [part_named (ascii ''a''), part_named (ascii ''c''), part_named (ascii ''b'')] \<and>
   movePart 2 1 (array_of [part_named (ascii ''a''), part_named (ascii ''b''), part_named (ascii ''c'')]) =
     array_of [part_named (ascii ''a''), part_named (ascii ''b''), part_named (ascii ''c'')] \<and>
   movePart 0 (- 1) (array_of [part_named (ascii ''a''), part_named (ascii ''b''), part_named (ascii ''c'')]) =
     array_of [part_named (ascii ''a''), part_named (ascii ''b''), part_named (ascii ''c'')]"
  using movePart_swap [of 0 1 "array_of [part_named (ascii ''a''), part_named (ascii ''b''), part_named (ascii ''c'')]"
      "[part_named (ascii ''a''), part_named (ascii ''b''), part_named (ascii ''c'')]"]
    movePart_swap [of 2 "- 1" "array_of [part_named (ascii ''a''), part_named (ascii ''b''), part_named (ascii ''c'')]"
      "[part_named (ascii ''a''), part_named (ascii ''b''), part_named (ascii ''c'')]"]
    movePart_swap [of 2 1 "array_of [part_named (ascii ''a''), part_named (ascii ''b''), part_named (ascii ''c'')]"
      "[part_named (ascii ''a''), part_named (ascii ''b''), part_named (ascii ''c'')]"]
  by (simp add: array_of_def)

text \<open>
  The row buttons call \<open>movePart\<close> with the position of a rendered part only. An index
  that is no position is stored as a property of the array, and a second call with the
  same arguments reads it back.
\<close>

lemma movePart_outside_positions:
  "movePart (- 1) 1 (movePart (- 1) 1 (array_of [p])) = array_of [p]"
  by (simp add: movePart_def js_index_def js_assign_def array_of_def)

text \<open>
  Claim C10. \<open>removePart\<close> is defined on every integer index (the model has no error
  branch because \<open>splice\<close> has none). At or beyond the length it leaves the parts unchanged;
  a negative index counts from the end, clamped at the first position, so that on a
  non-empty list \<open>removePart(-1)\<close> removes the last part; an index inside the list removes
  the part at that position.
\<close>

theorem removePart_splice:
  "(int (length ps) \<le> index \<longrightarrow> removePart index ps = ps) \<and>
   (ps \<noteq> [] \<longrightarrow> removePart (- 1) ps = butlast ps) \<and>
   (index < 0 \<longrightarrow>
      removePart index ps =
        take (nat (max (int (length ps) + index) 0)) ps
          @ drop (Suc (nat (max (int (length ps) + index) 0))) ps) \<and>
   (0 \<le> index \<and> index < int (length ps) \<longrightarrow>
      removePart index ps = take (nat index) ps @ drop (Suc (nat index)) ps) \<and>
   length (removePart index ps) \<le> length ps"
proof -
  have beyond: "removePart index ps = ps" if "int (length ps) \<le> index"
    using that by (simp add: removePart_def Let_def min_def)
  have last: "removePart (- 1) ps = butlast ps" if "ps \<noteq> []"
  proof -
    from that have len: "0 < length ps" by simp
    then have "nat (int (length ps) - 1) = length ps - 1" by simp
    with len show ?thesis
      by (simp add: removePart_def Let_def max_def butlast_conv_take)
  qed
  have negative: "removePart index ps =
        take (nat (max (int (length ps) + index) 0)) ps
          @ drop (Suc (nat (max (int (length ps) + index) 0))) ps" if "index < 0"
  proof (cases "ps = []")
    case True
    then show ?thesis by (simp add: removePart_def)
  next
    case False
    have "0 \<le> max (int (length ps) + index) 0"
      by simp
    then have "nat (max (int (length ps) + index) 0 + 1) =
        Suc (nat (max (int (length ps) + index) 0))"
      by (simp only: Suc_nat_eq_nat_zadd1 add.commute)
    moreover from that False
    have "min 1 (int (length ps) - max (int (length ps) + index) 0) = 1"
      by (cases ps) (auto simp add: max_def min_def)
    ultimately show ?thesis
      using that by (simp add: removePart_def Let_def)
  qed
  have inside: "removePart index ps = take (nat index) ps @ drop (Suc (nat index)) ps"
    if "0 \<le> index" "index < int (length ps)"
  proof -
    from that have "nat (index + 1) = Suc (nat index)" by simp
    with that show ?thesis
      by (simp add: removePart_def Let_def min_def)
  qed
  have shorter: "length (removePart index ps) \<le> length ps"
    by (auto simp add: removePart_def Let_def min_def max_def)
  from beyond last negative inside shorter show ?thesis
    by blast
qed

theorem removePart_splice_witness:
  "removePart 1 [part_named (ascii ''a'')] = [part_named (ascii ''a'')] \<and>
   removePart 7 [part_named (ascii ''a''), part_named (ascii ''b'')] =
     [part_named (ascii ''a''), part_named (ascii ''b'')] \<and>
   removePart (- 1) [part_named (ascii ''a''), part_named (ascii ''b'')] = [part_named (ascii ''a'')] \<and>
   removePart (- 2) [part_named (ascii ''a''), part_named (ascii ''b'')] = [part_named (ascii ''b'')] \<and>
   removePart (- 9) [part_named (ascii ''a''), part_named (ascii ''b'')] = [part_named (ascii ''b'')] \<and>
   removePart 0 [part_named (ascii ''a''), part_named (ascii ''b'')] = [part_named (ascii ''b'')]"
  using removePart_splice [of "[part_named (ascii ''a'')]" 1]
    removePart_splice [of "[part_named (ascii ''a''), part_named (ascii ''b'')]" 7]
    removePart_splice [of "[part_named (ascii ''a''), part_named (ascii ''b'')]" "- 1"]
    removePart_splice [of "[part_named (ascii ''a''), part_named (ascii ''b'')]" "- 2"]
    removePart_splice [of "[part_named (ascii ''a''), part_named (ascii ''b'')]" "- 9"]
    removePart_splice [of "[part_named (ascii ''a''), part_named (ascii ''b'')]" 0]
  by simp

end
